theory Spec2Isabelle
  imports Complex_Main
begin

section \<open>Rechenberg's (1+1)-ES with the 1/5th success rule (pypop7, es/res.py)\<close>

text \<open>
  The class \<open>RES\<close> of \<open>src/pypop7/optimizers/es/res.py\<close> is embedded with explicit state
  passing. Floating-point numbers are idealised as real numbers: \<open>np.exp\<close> is \<open>exp\<close>,
  \<open>np.power\<close> on a positive base is \<open>powr\<close>, and there is neither rounding nor
  \<open>inf\<close>/\<open>nan\<close>. A search point (a numpy vector) is a list of reals.
\<close>

type_synonym point = "real list"

datatype error = AssertionError | TypeError | IndexError

subsection \<open>The optimizer object\<close>

text \<open>
  The attributes of \<open>self\<close> that \<open>res.py\<close> reads or writes. \<open>eta_sigma\<close> is \<open>None\<close> until
  the constructor fills it in; \<open>stagnation\<close> is a Python integer, used as a negative list
  index; \<open>self_best_so_far_y\<close> is the attribute \<open>self.best_so_far_y\<close> (the loop of
  \<open>optimize\<close> has a local variable of the same name, kept in the loop state below);
  \<open>rng\<close> stands for the state of the object's random generators.
\<close>

record 'g res =
  ndim_problem :: nat
  eta_sigma :: "real option"
  sigma :: real
  sigma_bak :: real
  sigma_threshold :: real
  stagnation :: int
  fitness_diff :: real
  fitness_list :: "real list"
  n_restart :: nat
  n_generations :: nat
  n_function_evaluations :: nat
  self_best_so_far_y :: real
  is_restart :: bool
  record_fitness :: bool
  rng :: 'g

text \<open>
  The base class \<open>ES\<close> (and its base \<open>Optimizer\<close>) is not part of the sources. What
  \<open>res.py\<close> calls from it is a parameter of the model: the objective function, the draw of
  a standard-normal vector from \<open>rng_optimization\<close>, \<open>_initialize_mean\<close> and
  \<open>_check_terminations\<close>. \<open>_print_verbose_info\<close> only prints and has no counterpart.
\<close>

record 'g env =
  fitness_function :: "point \<Rightarrow> real"
  standard_normal :: "nat \<Rightarrow> 'g \<Rightarrow> point \<times> 'g"
  initialize_mean :: "bool \<Rightarrow> 'g \<Rightarrow> point \<times> 'g"
  check_terminations :: "'g res \<Rightarrow> bool"

text \<open>
  The local variables of \<open>optimize\<close> that live across generations, next to the object:
  \<open>mean\<close>, \<open>best_so_far_y\<close> and the trace \<open>fitness\<close>.
\<close>

record 'g state =
  self :: "'g res"
  mean :: point
  best_so_far_y :: real
  fitness :: "real list"

datatype 'a step = Raise error | Break 'a | Next 'a

subsection \<open>Construction\<close>

text \<open>
  \<open>RES.__init__\<close>, applied to the object as \<open>ES.__init__\<close> leaves it (a parameter, since
  \<open>ES.__init__\<close> is not part of the sources).
\<close>

definition RES_init :: "'g res \<Rightarrow> error + 'g res" where
  "RES_init s =
     (let s1 = (if eta_sigma s = None
                then s\<lparr>eta_sigma := Some (1 / sqrt (real (ndim_problem s) + 1))\<rparr>
                else s)
      in case eta_sigma s1 of
           None \<Rightarrow> Inl TypeError
         | Some e \<Rightarrow> if e > 0 then Inr s1 else Inl AssertionError)"

subsection \<open>Fitness evaluation, initialisation, sampling\<close>

text \<open>
  Modelled from the spec: \<open>_evaluate_fitness\<close> of the base class is missing from the
  sources. The spec says that it evaluates the objective, counts the evaluation and
  tracks the best fitness seen so far.
\<close>

definition evaluate_fitness :: "'g env \<Rightarrow> point \<Rightarrow> 'g res \<Rightarrow> real \<times> 'g res" where
  "evaluate_fitness env x s =
     (let y = fitness_function env x
      in (y, s\<lparr>n_function_evaluations := n_function_evaluations s + 1,
                self_best_so_far_y := (if y < self_best_so_far_y s then y
                                        else self_best_so_far_y s)\<rparr>))"

definition initialize :: "'g env \<Rightarrow> bool \<Rightarrow> 'g res \<Rightarrow> (point \<times> real \<times> real) \<times> 'g res" where
  "initialize env restarting s =
     (let (m, g) = initialize_mean env restarting (rng s);
          (y, s1) = evaluate_fitness env m (s\<lparr>rng := g\<rparr>)
      in ((m, y, y), s1))"

definition iterate :: "'g env \<Rightarrow> point \<Rightarrow> 'g res \<Rightarrow> (point \<times> real) \<times> 'g res" where
  "iterate env m s =
     (let (z, g) = standard_normal env (ndim_problem s) (rng s);
          x = map2 (\<lambda>mi zi. mi + sigma s * zi) m z;
          (y, s1) = evaluate_fitness env x (s\<lparr>rng := g\<rparr>)
      in ((x, y), s1))"

subsection \<open>Restart\<close>

text \<open>Python list indexing: a negative index counts from the end, out of range raises.\<close>

definition py_index :: "'a list \<Rightarrow> int \<Rightarrow> 'a option" where
  "py_index xs i =
     (let k = (if i < 0 then i + int (length xs) else i)
      in if k < 0 \<or> int (length xs) \<le> k then None else Some (xs ! nat k))"

text \<open>The two detectors of \<open>restart_initialize\<close>, named after its local variables.\<close>

definition is_restart_1 :: "'g res \<Rightarrow> bool" where
  "is_restart_1 s = (sigma s < sigma_threshold s)"

definition is_restart_2 :: "'g res \<Rightarrow> error + bool" where
  "is_restart_2 s =
     (if stagnation s \<le> int (length (fitness_list s)) then
        (case py_index (fitness_list s) (- stagnation s) of
           None \<Rightarrow> Inl IndexError
         | Some a \<Rightarrow>
             (case py_index (fitness_list s) (- 1) of
                None \<Rightarrow> Inl IndexError
              | Some b \<Rightarrow> Inr (a - b < fitness_diff s)))
      else Inr False)"

text \<open>Line 130: the object's best-so-far fitness goes onto the rolling history.\<close>

definition append_best :: "'g res \<Rightarrow> 'g res" where
  "append_best s = s\<lparr>fitness_list := fitness_list s @ [self_best_so_far_y s]\<rparr>"

definition restart_initialize ::
  "'g env \<Rightarrow> 'g res \<Rightarrow> point \<times> real \<times> real \<Rightarrow> real list \<Rightarrow>
     error + ('g res \<times> (point \<times> real \<times> real) \<times> real list)" where
  "restart_initialize env s args trace =
     (let s1 = append_best s
      in case is_restart_2 s1 of
           Inl e \<Rightarrow> Inl e
         | Inr r2 \<Rightarrow>
             if is_restart_1 s1 \<or> r2 then
               (let s2 = s1\<lparr>n_restart := n_restart s1 + 1\<rparr>;
                    s3 = s2\<lparr>sigma := sigma_bak s2\<rparr>;
                    ((m, y, b), s4) = initialize env True s3
                in Inr (s4\<lparr>fitness_list := [b]\<rparr>, (m, y, b), trace @ [y]))
             else Inr (s1, args, trace))"

subsection \<open>One generation of \<open>optimize\<close>\<close>

text \<open>Lines 148 to 150: sample and evaluate the offspring, record its fitness.\<close>

definition sample_offspring :: "'g env \<Rightarrow> 'g state \<Rightarrow> point \<times> real \<times> 'g state" where
  "sample_offspring env st =
     (let ((x, y), s1) = iterate env (mean st) (self st)
      in (x, y, st\<lparr>self := s1,
                    fitness := (if record_fitness s1 then fitness st @ [y]
                                else fitness st)\<rparr>))"

text \<open>
  Lines 153 to 157: the step-size update, the generation counter and the replacement of
  the incumbent. Both tests read \<open>best_so_far_y\<close> as it was before the generation.
\<close>

definition update :: "'g state \<Rightarrow> point \<Rightarrow> real \<Rightarrow> real \<Rightarrow> 'g state" where
  "update st x y eta =
     (let s1 = (self st)\<lparr>sigma := sigma (self st) *
                   (exp (of_bool (y < best_so_far_y st) - 1 / 5) powr eta)\<rparr>;
          s2 = s1\<lparr>n_generations := n_generations s1 + 1\<rparr>
      in if y < best_so_far_y st
         then st\<lparr>self := s2, mean := x, best_so_far_y := y\<rparr>
         else st\<lparr>self := s2\<rparr>)"

text \<open>Lines 158 and 159: the restart check, behind the gate \<open>self.is_restart\<close>.\<close>

definition restart_check :: "'g env \<Rightarrow> 'g state \<Rightarrow> real \<Rightarrow> error + 'g state" where
  "restart_check env st y =
     (if is_restart (self st) then
        (case restart_initialize env (self st) (mean st, y, best_so_far_y st) (fitness st) of
           Inl e \<Rightarrow> Inl e
         | Inr (s1, (m, y1, b), trace) \<Rightarrow>
             Inr \<lparr>self = s1, mean = m, best_so_far_y = b, fitness = trace\<rparr>)
      else Inr st)"

text \<open>The body of the \<open>while True\<close> loop.\<close>

definition generation :: "'g env \<Rightarrow> 'g state \<Rightarrow> 'g state step" where
  "generation env st =
     (let (x, y, st1) = sample_offspring env st
      in if check_terminations env (self st1) then Break st1
         else (case eta_sigma (self st1) of
                 None \<Rightarrow> Raise TypeError
               | Some eta \<Rightarrow>
                   (case restart_check env (update st1 x y eta) y of
                      Inl e \<Rightarrow> Raise e
                    | Inr st2 \<Rightarrow> Next st2)))"

subsection \<open>The run\<close>

text \<open>
  Lines 144 to 146. Modelled from the spec: \<open>ES.optimize\<close> is missing from the sources;
  the spec has the trace seeded with the initial fitness, so it hands out an empty trace.
\<close>

definition optimize_start :: "'g env \<Rightarrow> 'g res \<Rightarrow> 'g state" where
  "optimize_start env s =
     (let ((m, y, b), s1) = initialize env False s
      in \<lparr>self = s1, mean = m, best_so_far_y = b, fitness = [] @ [y]\<rparr>)"

text \<open>
  The loop has no bound of its own: it ends when \<open>_check_terminations\<close> says so or when
  an exception leaves it. \<open>None\<close> is a run that never ends.
\<close>

partial_function (option) loop :: "'g env \<Rightarrow> 'g state \<Rightarrow> (error + 'g state) option" where
  "loop env st =
     (case generation env st of
        Raise e \<Rightarrow> Some (Inl e)
      | Break st1 \<Rightarrow> Some (Inr st1)
      | Next st1 \<Rightarrow> loop env st1)"

definition optimize :: "'g env \<Rightarrow> 'g res \<Rightarrow> (error + 'g state) option" where
  "optimize env s = loop env (optimize_start env s)"

text \<open>
  The state at the head of the loop after \<open>k\<close> generations, none of which terminated the
  run or raised.
\<close>

fun generations :: "'g env \<Rightarrow> nat \<Rightarrow> 'g state \<Rightarrow> 'g state option" where
  "generations env 0 st = Some st"
| "generations env (Suc k) st =
     (case generation env st of
        Next st1 \<Rightarrow> generations env k st1
      | _ \<Rightarrow> None)"

subsection \<open>A concrete run\<close>

text \<open>
  The setting of the docstring's example and of the spec's end-to-end scenario, made
  deterministic: two dimensions, the sum of squares as objective, an evaluation budget
  as the only stop condition, and a generator that reads its draws from a prepared tape
  (the restart point is read from the same tape). The object is as the constructor
  leaves it, with step-size 0.1 and learning rate 1; \<open>self.best_so_far_y\<close> starts above
  every fitness of the run, in place of \<open>inf\<close>.
\<close>

definition sphere :: "point \<Rightarrow> real" where
  "sphere x = sum_list (map (\<lambda>v. v * v) x)"

definition tape_env :: "nat \<Rightarrow> point \<Rightarrow> (real list) env" where
  "tape_env budget m0 =
     \<lparr>fitness_function = sphere,
      standard_normal = (\<lambda>n g. (take n g, drop n g)),
      initialize_mean = (\<lambda>restarting g.
         if restarting then (take (length m0) g, drop (length m0) g) else (m0, g)),
      check_terminations = (\<lambda>s. budget \<le> n_function_evaluations s)\<rparr>"

definition tape_res :: "bool \<Rightarrow> int \<Rightarrow> real list \<Rightarrow> (real list) res" where
  "tape_res gate w tape =
     \<lparr>ndim_problem = 2, eta_sigma = Some 1, sigma = 1 / 10, sigma_bak = 1 / 10,
      sigma_threshold = 0, stagnation = w, fitness_diff = 1 / 1000, fitness_list = [],
      n_restart = 0, n_generations = 0, n_function_evaluations = 0,
      self_best_so_far_y = 1000, is_restart = gate, record_fitness = True, rng = tape\<rparr>"

text \<open>The state at the head of the loop, before the first generation of such a run.\<close>

definition tape_start :: "nat \<Rightarrow> bool \<Rightarrow> int \<Rightarrow> real list \<Rightarrow> (real list) state" where
  "tape_start budget gate w tape =
     optimize_start (tape_env budget [3, 3]) (tape_res gate w tape)"

section \<open>Effects of the building blocks\<close>

lemma sample_offspring_effect:
  assumes "sample_offspring env st = (x, y, st1)"
  shows "mean st1 = mean st"
    and "best_so_far_y st1 = best_so_far_y st"
    and "fitness st1 = (if record_fitness (self st) then fitness st @ [y] else fitness st)"
    and "sigma (self st1) = sigma (self st)"
    and "eta_sigma (self st1) = eta_sigma (self st)"
    and "sigma_bak (self st1) = sigma_bak (self st)"
    and "sigma_threshold (self st1) = sigma_threshold (self st)"
    and "stagnation (self st1) = stagnation (self st)"
    and "fitness_diff (self st1) = fitness_diff (self st)"
    and "fitness_list (self st1) = fitness_list (self st)"
    and "n_restart (self st1) = n_restart (self st)"
    and "n_generations (self st1) = n_generations (self st)"
    and "n_function_evaluations (self st1) = n_function_evaluations (self st) + 1"
    and "is_restart (self st1) = is_restart (self st)"
    and "record_fitness (self st1) = record_fitness (self st)"
    and "self_best_so_far_y (self st1) =
           (if y < self_best_so_far_y (self st) then y else self_best_so_far_y (self st))"
    and "y = fitness_function env x"
  using assms
  by (auto simp: sample_offspring_def iterate_def evaluate_fitness_def Let_def
           split: prod.splits)

lemma update_self:
  "self (update st x y eta) =
     (self st)\<lparr>sigma := sigma (self st) * (exp (of_bool (y < best_so_far_y st) - 1 / 5) powr eta),
               n_generations := n_generations (self st) + 1\<rparr>"
  by (simp add: update_def Let_def)

lemma update_incumbent:
  "mean (update st x y eta) = (if y < best_so_far_y st then x else mean st)"
  "best_so_far_y (update st x y eta) = (if y < best_so_far_y st then y else best_so_far_y st)"
  "fitness (update st x y eta) = fitness st"
  by (simp_all add: update_def Let_def)

lemma generation_Next:
  assumes "generation env st = Next st2" and "sample_offspring env st = (x, y, st1)"
  shows "\<not> check_terminations env (self st1)"
    and "\<exists>eta. eta_sigma (self st) = Some eta \<and> restart_check env (update st1 x y eta) y = Inr st2"
  using assms sample_offspring_effect(5)[OF assms(2)]
  by (auto simp: generation_def split: if_splits option.splits sum.splits)

lemma generation_Break:
  assumes "generation env st = Break st2" and "sample_offspring env st = (x, y, st1)"
  shows "check_terminations env (self st1)" and "st2 = st1"
  using assms
  by (auto simp: generation_def split: if_splits option.splits sum.splits)

lemma initialize_effect:
  assumes "initialize env r s = ((m, y, b), s1)"
  shows "b = y" and "y = fitness_function env m"
    and "sigma s1 = sigma s" and "sigma_bak s1 = sigma_bak s" and "n_restart s1 = n_restart s"
    and "n_generations s1 = n_generations s"
    and "n_function_evaluations s1 = n_function_evaluations s + 1"
    and "is_restart s1 = is_restart s" and "eta_sigma s1 = eta_sigma s"
    and "fitness_list s1 = fitness_list s"
    and "self_best_so_far_y s1 = (if y < self_best_so_far_y s then y else self_best_so_far_y s)"
  using assms
  by (auto simp: initialize_def evaluate_fitness_def Let_def split: prod.splits)


lemma restart_initialize_quiet:
  assumes "\<not> is_restart_1 (append_best s)" and "is_restart_2 (append_best s) = Inr False"
  shows "restart_initialize env s args trace = Inr (append_best s, args, trace)"
  using assms by (simp add: restart_initialize_def append_best_def Let_def)

lemma restart_initialize_fired:
  assumes "is_restart_2 (append_best s) = Inr r2" and "is_restart_1 (append_best s) \<or> r2"
      and "initialize env True ((append_best s)\<lparr>n_restart := n_restart s + 1, sigma := sigma_bak s\<rparr>) = ((m, y, b), s4)"
  shows "restart_initialize env s args trace = Inr (s4\<lparr>fitness_list := [b]\<rparr>, (m, y, b), trace @ [y])"
  using assms by (simp add: restart_initialize_def append_best_def Let_def)

lemma restart_initialize_error:
  assumes "is_restart_2 (append_best s) = Inl e"
  shows "restart_initialize env s args trace = Inl e"
  using assms by (simp add: restart_initialize_def append_best_def Let_def)

lemma restart_initialize_cases:
  assumes "restart_initialize env s args trace = Inr (s', args', trace')"
  obtains (quiet) "\<not> is_restart_1 (append_best s)" "is_restart_2 (append_best s) = Inr False"
      "s' = append_best s" "args' = args" "trace' = trace"
    | (fired) r2 m y b s4 where "is_restart_2 (append_best s) = Inr r2" "is_restart_1 (append_best s) \<or> r2"
      "initialize env True ((append_best s)\<lparr>n_restart := n_restart s + 1, sigma := sigma_bak s\<rparr>) = ((m, y, b), s4)"
      "s' = s4\<lparr>fitness_list := [b]\<rparr>" "args' = (m, y, b)" "trace' = trace @ [y]"
proof (cases "is_restart_2 (append_best s)")
  case (Inl e)
  from restart_initialize_error[OF this] assms show ?thesis by simp
next
  case (Inr r2)
  show ?thesis
  proof (cases "is_restart_1 (append_best s) \<or> r2")
    case True
    obtain m y b s4 where i: "initialize env True ((append_best s)\<lparr>n_restart := n_restart s + 1, sigma := sigma_bak s\<rparr>) = ((m, y, b), s4)"
      by (cases "initialize env True ((append_best s)\<lparr>n_restart := n_restart s + 1, sigma := sigma_bak s\<rparr>)") auto
    from restart_initialize_fired[OF Inr True i] assms fired[OF Inr True i] show ?thesis by simp
  next
    case False
    then have q: "\<not> is_restart_1 (append_best s)" "is_restart_2 (append_best s) = Inr False"
      using Inr by simp_all
    from restart_initialize_quiet[OF q] assms quiet[OF q] show ?thesis by simp
  qed
qed


lemma restart_check_off:
  "\<not> is_restart (self st) \<Longrightarrow> restart_check env st y = Inr st"
  by (simp add: restart_check_def)

lemma restart_check_cases:
  assumes "restart_check env st y = Inr st2"
  obtains (off) "\<not> is_restart (self st)" "st2 = st"
    | (quiet) "is_restart (self st)" "\<not> is_restart_1 (append_best (self st))"
        "is_restart_2 (append_best (self st)) = Inr False"
        "st2 = st\<lparr>self := append_best (self st)\<rparr>"
    | (fired) r2 m y1 b s4 where "is_restart (self st)"
        "is_restart_2 (append_best (self st)) = Inr r2" "is_restart_1 (append_best (self st)) \<or> r2"
        "initialize env True ((append_best (self st))\<lparr>n_restart := n_restart (self st) + 1,
            sigma := sigma_bak (self st)\<rparr>) = ((m, y1, b), s4)"
        "st2 = \<lparr>self = s4\<lparr>fitness_list := [b]\<rparr>, mean = m, best_so_far_y = b,
                 fitness = fitness st @ [y1]\<rparr>"
proof (cases "is_restart (self st)")
  case False
  with assms have "st2 = st" by (simp add: restart_check_def)
  with False show ?thesis by (rule off)
next
  case True
  show ?thesis
  proof (cases "restart_initialize env (self st) (mean st, y, best_so_far_y st) (fitness st)")
    case (Inl e)
    with assms True show ?thesis by (simp add: restart_check_def)
  next
    case (Inr res)
    define s1 where "s1 = fst res"
    define m where "m = fst (fst (snd res))"
    define y1 where "y1 = fst (snd (fst (snd res)))"
    define b where "b = snd (snd (fst (snd res)))"
    define trace where "trace = snd (snd res)"
    have res: "res = (s1, (m, y1, b), trace)"
      by (simp add: s1_def m_def y1_def b_def trace_def)
    have r: "restart_initialize env (self st) (mean st, y, best_so_far_y st) (fitness st) = Inr (s1, (m, y1, b), trace)"
      using Inr res by simp
    have st2: "st2 = \<lparr>self = s1, mean = m, best_so_far_y = b, fitness = trace\<rparr>"
      using assms True r by (simp add: restart_check_def)
    from r show ?thesis
    proof (cases rule: restart_initialize_cases)
    case quiet
    from st2 quiet(3,4,5) have "st2 = st\<lparr>self := append_best (self st)\<rparr>" by simp
    with True quiet(1,2) show ?thesis by (rule that(2))
  next
    case (fired r2 m' y' b' s4)
    from st2 fired(4,5,6) have "st2 = \<lparr>self = s4\<lparr>fitness_list := [b']\<rparr>, mean = m', best_so_far_y = b',
                 fitness = fitness st @ [y']\<rparr>" by simp
    with True fired(1,2,3) show ?thesis by (rule that(3))
  qed
  qed
qed


lemma generation_unfold:
  assumes "sample_offspring env st = (x, y, st1)"
      and "\<not> check_terminations env (self st1)"
      and "eta_sigma (self st1) = Some eta"
  shows "generation env st =
           (case restart_check env (update st1 x y eta) y of
              Inl e \<Rightarrow> Raise e | Inr st2 \<Rightarrow> Next st2)"
  using assms by (simp add: generation_def)


lemma restart_check_same:
  assumes "restart_check env st y = Inr st2" and "n_restart (self st2) = n_restart (self st)"
  shows "sigma (self st2) = sigma (self st) \<and> mean st2 = mean st
    \<and> best_so_far_y st2 = best_so_far_y st \<and> fitness st2 = fitness st
    \<and> n_function_evaluations (self st2) = n_function_evaluations (self st)
    \<and> n_generations (self st2) = n_generations (self st)
    \<and> self_best_so_far_y (self st2) = self_best_so_far_y (self st)"
  using assms(1)
proof (cases rule: restart_check_cases)
  case off
  then show ?thesis by simp
next
  case quiet
  then show ?thesis by (simp add: append_best_def)
next
  case (fired r2 m y1 b s4)
  from initialize_effect(5)[OF fired(4)] fired(5) assms(2) have False by simp
  then show ?thesis ..
qed


lemma update_params:
  "sigma_threshold (self (update st x y eta)) = sigma_threshold (self st)"
  "stagnation (self (update st x y eta)) = stagnation (self st)"
  "fitness_diff (self (update st x y eta)) = fitness_diff (self st)"
  "fitness_list (self (update st x y eta)) = fitness_list (self st)"
  "self_best_so_far_y (self (update st x y eta)) = self_best_so_far_y (self st)"
  "is_restart (self (update st x y eta)) = is_restart (self st)"
  "n_restart (self (update st x y eta)) = n_restart (self st)"
  "sigma_bak (self (update st x y eta)) = sigma_bak (self st)"
  "n_function_evaluations (self (update st x y eta)) = n_function_evaluations (self st)"
  "n_generations (self (update st x y eta)) = n_generations (self st) + 1"
  "eta_sigma (self (update st x y eta)) = eta_sigma (self st)"
  "rng (self (update st x y eta)) = rng (self st)"
  by (simp_all add: update_self)

lemma optimize_start_effect:
  "sigma_bak (self (optimize_start env s)) = sigma_bak s"
  "sigma (self (optimize_start env s)) = sigma s"
  "n_restart (self (optimize_start env s)) = n_restart s"
  "n_generations (self (optimize_start env s)) = n_generations s"
  "n_function_evaluations (self (optimize_start env s)) = n_function_evaluations s + 1"
  "is_restart (self (optimize_start env s)) = is_restart s"
  "eta_sigma (self (optimize_start env s)) = eta_sigma s"
  "fitness_list (self (optimize_start env s)) = fitness_list s"
  by (simp_all add: optimize_start_def initialize_def evaluate_fitness_def Let_def
        split: prod.splits)

lemma restart_check_const:
  assumes "restart_check env st y = Inr st2"
  shows "sigma_bak (self st2) = sigma_bak (self st) \<and> is_restart (self st2) = is_restart (self st)
       \<and> eta_sigma (self st2) = eta_sigma (self st)
       \<and> n_generations (self st2) = n_generations (self st)"
  using assms
proof (cases rule: restart_check_cases)
  case off
  then show ?thesis by simp
next
  case quiet
  then show ?thesis by (simp add: append_best_def)
next
  case (fired r2 m y1 b s4)
  from initialize_effect(4,6,8,9)[OF fired(4)] fired(5) show ?thesis
    by (simp add: append_best_def)
qed

lemma generation_const:
  assumes "generation env st = Next st2"
  shows "sigma_bak (self st2) = sigma_bak (self st) \<and> is_restart (self st2) = is_restart (self st)
       \<and> eta_sigma (self st2) = eta_sigma (self st)
       \<and> n_generations (self st2) = n_generations (self st) + 1"
proof -
  obtain x y st1 where h: "sample_offspring env st = (x, y, st1)"
    by (cases "sample_offspring env st") auto
  note eff = sample_offspring_effect[OF h]
  from generation_Next(2)[OF assms h] obtain eta where
    rc: "restart_check env (update st1 x y eta) y = Inr st2" by blast
  from restart_check_const[OF rc] show ?thesis
    by (simp add: update_params eff)
qed

lemma generations_const:
  "generations env k st = Some st2 \<Longrightarrow>
     sigma_bak (self st2) = sigma_bak (self st) \<and> is_restart (self st2) = is_restart (self st)
     \<and> eta_sigma (self st2) = eta_sigma (self st)
     \<and> n_generations (self st2) = n_generations (self st) + k"
proof (induction k arbitrary: st)
  case 0
  then show ?case by simp
next
  case (Suc k)
  then obtain st1 where g: "generation env st = Next st1"
    and r: "generations env k st1 = Some st2"
    by (auto split: step.splits)
  from Suc.IH[OF r] generation_const[OF g] show ?case by simp
qed

subsection \<open>Counters and the best fitness along a run\<close>

lemma restart_check_counters:
  assumes "restart_check env st y = Inr st2"
  shows "n_function_evaluations (self st2) + n_restart (self st) =
           n_function_evaluations (self st) + n_restart (self st2)
       \<and> n_restart (self st) \<le> n_restart (self st2)
       \<and> (\<not> is_restart (self st) \<longrightarrow> n_restart (self st2) = n_restart (self st))
       \<and> self_best_so_far_y (self st2) \<le> self_best_so_far_y (self st)"
  using assms
proof (cases rule: restart_check_cases)
  case off
  then show ?thesis by simp
next
  case quiet
  then show ?thesis by (simp add: append_best_def)
next
  case (fired r2 m y1 b s4)
  from initialize_effect(5,7,11)[OF fired(4)] fired(1,5) show ?thesis
    by (simp add: append_best_def)
qed

lemma generation_counters:
  assumes "generation env st = Next st2"
  shows "n_function_evaluations (self st2) + n_restart (self st) =
           n_function_evaluations (self st) + 1 + n_restart (self st2)
       \<and> n_restart (self st) \<le> n_restart (self st2)
       \<and> (\<not> is_restart (self st) \<longrightarrow> n_restart (self st2) = n_restart (self st))
       \<and> self_best_so_far_y (self st2) \<le> self_best_so_far_y (self st)"
proof -
  obtain x y st1 where h: "sample_offspring env st = (x, y, st1)"
    by (cases "sample_offspring env st") auto
  note eff = sample_offspring_effect[OF h]
  from generation_Next(2)[OF assms h] obtain eta where
    rc: "restart_check env (update st1 x y eta) y = Inr st2" by blast
  have "self_best_so_far_y (self st1) \<le> self_best_so_far_y (self st)"
    by (simp add: eff(16))
  with restart_check_counters[OF rc] show ?thesis
    by (simp add: update_params eff(11,13,14))
qed

lemma generations_counters:
  "generations env k st = Some st2 \<Longrightarrow>
     n_function_evaluations (self st2) + n_restart (self st) =
       n_function_evaluations (self st) + k + n_restart (self st2)
     \<and> n_restart (self st) \<le> n_restart (self st2)
     \<and> (\<not> is_restart (self st) \<longrightarrow> n_restart (self st2) = n_restart (self st))
     \<and> self_best_so_far_y (self st2) \<le> self_best_so_far_y (self st)"
proof (induction k arbitrary: st)
  case 0
  then show ?case by simp
next
  case (Suc k)
  then obtain st1 where g: "generation env st = Next st1"
    and r: "generations env k st1 = Some st2"
    by (auto split: step.splits)
  from generation_const[OF g] have gate: "is_restart (self st1) = is_restart (self st)"
    by simp
  from Suc.IH[OF r] generation_counters[OF g] gate show ?case by auto
qed

lemma generation_best:
  assumes "generation env st = Next st2" and "n_restart (self st2) = n_restart (self st)"
  shows "best_so_far_y st2 \<le> best_so_far_y st"
proof -
  obtain x y st1 where h: "sample_offspring env st = (x, y, st1)"
    by (cases "sample_offspring env st") auto
  note eff = sample_offspring_effect[OF h]
  from generation_Next(2)[OF assms(1) h] obtain eta where
    rc: "restart_check env (update st1 x y eta) y = Inr st2" by blast
  have "n_restart (self st2) = n_restart (self (update st1 x y eta))"
    using assms(2) by (simp add: update_params eff(11))
  from restart_check_same[OF rc this]
  have "best_so_far_y st2 = best_so_far_y (update st1 x y eta)" by simp
  then show ?thesis by (simp add: update_incumbent eff(2))
qed

lemma generations_best:
  "generations env k st = Some st2 \<Longrightarrow> n_restart (self st2) = n_restart (self st) \<Longrightarrow>
     best_so_far_y st2 \<le> best_so_far_y st"
proof (induction k arbitrary: st)
  case 0
  then show ?case by simp
next
  case (Suc k)
  then obtain st1 where g: "generation env st = Next st1"
    and r: "generations env k st1 = Some st2"
    by (auto split: step.splits)
  from generation_counters[OF g] generations_counters[OF r] Suc.prems(2)
  have eq: "n_restart (self st1) = n_restart (self st)" "n_restart (self st2) = n_restart (self st1)"
    by simp_all
  from Suc.IH[OF r eq(2)] generation_best[OF g eq(1)] show ?case by simp
qed

subsection \<open>The loop\<close>

lemma loop_Break:
  "generation env st = Break st1 \<Longrightarrow> loop env st = Some (Inr st1)"
  by (subst loop.simps) simp

lemma loop_Raise:
  "generation env st = Raise e \<Longrightarrow> loop env st = Some (Inl e)"
  by (subst loop.simps) simp

lemma loop_generations:
  "generations env k st = Some st1 \<Longrightarrow> loop env st = loop env st1"
proof (induction k arbitrary: st)
  case 0
  then show ?case by simp
next
  case (Suc k)
  then obtain st0 where g: "generation env st = Next st0"
    and r: "generations env k st0 = Some st1"
    by (auto split: step.splits)
  have "loop env st = loop env st0"
    using g by (subst loop.simps) simp
  with Suc.IH[OF r] show ?case by simp
qed

lemma optimize_returns:
  assumes "generations env k (optimize_start env s) = Some st"
      and "generation env st = Break st1"
  shows "optimize env s = Some (Inr st1)"
  using loop_generations[OF assms(1)] loop_Break[OF assms(2)]
  by (simp add: optimize_def)

text \<open>The equations that evaluate a concrete run.\<close>

lemmas run_defs = sphere_def tape_env_def tape_res_def tape_start_def optimize_start_def initialize_def
  evaluate_fitness_def iterate_def sample_offspring_def update_def restart_check_def
  restart_initialize_def append_best_def is_restart_1_def is_restart_2_def py_index_def
  generation_def Let_def

section \<open>The claims\<close>

text \<open>
  C1. In every generation that does not terminate the run, line 153 multiplies sigma once
  by \<open>exp (indicator (y < best_so_far_y) - 1/5)\<close> to the power \<open>eta_sigma\<close>: the new
  sigma is \<open>sigma * exp (0.8 * eta_sigma)\<close> when the offspring strictly improves on
  \<open>best_so_far_y\<close>, and \<open>sigma * exp (- 0.2 * eta_sigma)\<close> otherwise. The generation
  counter advances by one, the restart check of the generation reads the state with this
  sigma, and the generation ends with this sigma whenever no restart fires in it.
\<close>

theorem sigma_adaptation:
  assumes "sample_offspring env st = (x, y, st1)"
      and "\<not> check_terminations env (self st1)"
      and "eta_sigma (self st1) = Some eta"
  shows "sigma (self (update st1 x y eta)) =
           sigma (self st) * (exp (of_bool (y < best_so_far_y st) - 1 / 5) powr eta)
       \<and> (y < best_so_far_y st \<longrightarrow>
            sigma (self (update st1 x y eta)) = sigma (self st) * exp (0.8 * eta))
       \<and> (\<not> y < best_so_far_y st \<longrightarrow>
            sigma (self (update st1 x y eta)) = sigma (self st) * exp (- 0.2 * eta))
       \<and> n_generations (self (update st1 x y eta)) = n_generations (self st) + 1
       \<and> generation env st =
            (case restart_check env (update st1 x y eta) y of
               Inl e \<Rightarrow> Raise e | Inr st2 \<Rightarrow> Next st2)
       \<and> (\<forall>st2. generation env st = Next st2 \<and> n_restart (self st2) = n_restart (self st)
              \<longrightarrow> sigma (self st2) = sigma (self (update st1 x y eta)))"
proof -
  note eff = sample_offspring_effect[OF assms(1)]
  have upd: "sigma (self (update st1 x y eta)) =
           sigma (self st) * (exp (of_bool (y < best_so_far_y st) - 1 / 5) powr eta)"
    by (simp add: update_self eff(2,4))
  have up: "y < best_so_far_y st \<Longrightarrow>
            sigma (self (update st1 x y eta)) = sigma (self st) * exp (0.8 * eta)"
    by (simp add: upd exp_powr_real)
  have down: "\<not> y < best_so_far_y st \<Longrightarrow>
            sigma (self (update st1 x y eta)) = sigma (self st) * exp (- 0.2 * eta)"
    by (simp add: upd exp_powr_real)
  have gens: "n_generations (self (update st1 x y eta)) = n_generations (self st) + 1"
    by (simp add: update_self eff(12))
  have unf: "generation env st =
            (case restart_check env (update st1 x y eta) y of
               Inl e \<Rightarrow> Raise e | Inr st2 \<Rightarrow> Next st2)"
    by (rule generation_unfold[OF assms])
  have fin: "sigma (self st2) = sigma (self (update st1 x y eta))"
    if "generation env st = Next st2" and "n_restart (self st2) = n_restart (self st)" for st2
  proof -
    from that(1) unf have rc: "restart_check env (update st1 x y eta) y = Inr st2"
      by (simp split: sum.splits)
    have "n_restart (self (update st1 x y eta)) = n_restart (self st)"
      by (simp add: update_self eff(11))
    with that(2) restart_check_same[OF rc] show ?thesis by simp
  qed
  from upd up down gens unf fin show ?thesis by blast
qed

theorem sigma_adaptation_witness:
  "let E = tape_env 200 [3, 3];
       S = optimize_start E (tape_res False 100 [- 1, - 1, 4, 4]);
       x = fst (sample_offspring E S);
       y = fst (snd (sample_offspring E S));
       S1 = snd (snd (sample_offspring E S))
   in \<not> check_terminations E (self S1) \<and> eta_sigma (self S1) = Some 1
      \<and> y < best_so_far_y S
      \<and> sigma (self (update S1 x y 1)) = sigma (self S) * exp (0.8 * 1)
      \<and> generation E S = Next (update S1 x y 1)
      \<and> sigma (self (update S1 x y 1)) = exp (4 / 5) / 10"
proof -
  define E where "E = tape_env 200 [3, 3]"
  define S where "S = optimize_start E (tape_res False 100 [- 1, - 1, 4, 4])"
  define x where "x = fst (sample_offspring E S)"
  define y where "y = fst (snd (sample_offspring E S))"
  define S1 where "S1 = snd (snd (sample_offspring E S))"
  have h: "sample_offspring E S = (x, y, S1)"
    by (simp add: x_def y_def S1_def)
  have c: "\<not> check_terminations E (self S1)"
    by (simp add: S1_def S_def E_def run_defs)
  have e: "eta_sigma (self S1) = Some 1"
    by (simp add: S1_def S_def E_def run_defs)
  have imp: "y < best_so_far_y S"
    by (simp add: y_def S_def E_def run_defs)
  have g: "generation E S = Next (update S1 x y 1)"
    by (simp add: x_def y_def S1_def S_def E_def run_defs)
  from sigma_adaptation[OF h c e] imp
  have a: "sigma (self (update S1 x y 1)) = sigma (self S) * exp (0.8 * 1)" by blast
  have "sigma (self S) = 1 / 10" by (simp add: S_def E_def run_defs)
  with a have b: "sigma (self (update S1 x y 1)) = exp (4 / 5) / 10" by simp
  show ?thesis
    unfolding Let_def E_def[symmetric] S_def[symmetric] x_def[symmetric] y_def[symmetric]
      S1_def[symmetric]
    using c e imp a g b by blast
qed

text \<open>
  C2 (as amended). In every generation that does not terminate the run, lines 156 and 157
  replace the incumbent if and only if the offspring's fitness is strictly less than
  \<open>best_so_far_y\<close>: then \<open>mean\<close> becomes \<open>x\<close> and \<open>best_so_far_y\<close> becomes \<open>y\<close>; otherwise
  both are left as they were (a tie is not accepted). The restart check reads this
  incumbent, and the generation ends with it whenever no restart fires in it.
\<close>

theorem incumbent_update:
  assumes "sample_offspring env st = (x, y, st1)"
      and "\<not> check_terminations env (self st1)"
      and "eta_sigma (self st1) = Some eta"
  shows "(y < best_so_far_y st \<longrightarrow>
            mean (update st1 x y eta) = x \<and> best_so_far_y (update st1 x y eta) = y)
       \<and> (\<not> y < best_so_far_y st \<longrightarrow>
            mean (update st1 x y eta) = mean st
            \<and> best_so_far_y (update st1 x y eta) = best_so_far_y st)
       \<and> generation env st =
            (case restart_check env (update st1 x y eta) y of
               Inl e \<Rightarrow> Raise e | Inr st2 \<Rightarrow> Next st2)
       \<and> (\<forall>st2. generation env st = Next st2 \<and> n_restart (self st2) = n_restart (self st)
              \<longrightarrow> mean st2 = mean (update st1 x y eta)
                  \<and> best_so_far_y st2 = best_so_far_y (update st1 x y eta))"
proof -
  note eff = sample_offspring_effect[OF assms(1)]
  have yes: "mean (update st1 x y eta) = x \<and> best_so_far_y (update st1 x y eta) = y"
    if "y < best_so_far_y st"
    using that by (simp add: update_incumbent eff(2))
  have no: "mean (update st1 x y eta) = mean st
            \<and> best_so_far_y (update st1 x y eta) = best_so_far_y st"
    if "\<not> y < best_so_far_y st"
    using that by (simp add: update_incumbent eff(1,2))
  have unf: "generation env st =
            (case restart_check env (update st1 x y eta) y of
               Inl e \<Rightarrow> Raise e | Inr st2 \<Rightarrow> Next st2)"
    by (rule generation_unfold[OF assms])
  have fin: "mean st2 = mean (update st1 x y eta)
             \<and> best_so_far_y st2 = best_so_far_y (update st1 x y eta)"
    if "generation env st = Next st2" and "n_restart (self st2) = n_restart (self st)" for st2
  proof -
    from that(1) unf have rc: "restart_check env (update st1 x y eta) y = Inr st2"
      by (simp split: sum.splits)
    have "n_restart (self (update st1 x y eta)) = n_restart (self st)"
      by (simp add: update_self eff(11))
    with that(2) restart_check_same[OF rc] show ?thesis by simp
  qed
  from yes no unf fin show ?thesis by blast
qed

theorem incumbent_update_witness:
  "let E = tape_env 200 [3, 3];
       S = tape_start 200 False 100 [- 1, - 1, 4, 4];
       x = fst (sample_offspring E S);
       y = fst (snd (sample_offspring E S));
       S1 = snd (snd (sample_offspring E S))
   in \<not> check_terminations E (self S1) \<and> eta_sigma (self S1) = Some 1
      \<and> y < best_so_far_y S
      \<and> mean (update S1 x y 1) = x \<and> best_so_far_y (update S1 x y 1) = y
      \<and> x = [29 / 10, 29 / 10] \<and> y = 841 / 50 \<and> best_so_far_y S = 18"
proof -
  define E where "E = tape_env 200 [3, 3]"
  define S where "S = tape_start 200 False 100 [- 1, - 1, 4, 4]"
  define x where "x = fst (sample_offspring E S)"
  define y where "y = fst (snd (sample_offspring E S))"
  define S1 where "S1 = snd (snd (sample_offspring E S))"
  have h: "sample_offspring E S = (x, y, S1)"
    by (simp add: x_def y_def S1_def)
  have c: "\<not> check_terminations E (self S1)"
    by (simp add: S1_def S_def E_def run_defs)
  have e: "eta_sigma (self S1) = Some 1"
    by (simp add: S1_def S_def E_def run_defs)
  have imp: "y < best_so_far_y S"
    by (simp add: y_def S_def E_def run_defs)
  have vals: "x = [29 / 10, 29 / 10]" "y = 841 / 50" "best_so_far_y S = 18"
    by (simp_all add: x_def y_def S_def E_def run_defs)
  from incumbent_update[OF h c e] imp
  have a: "mean (update S1 x y 1) = x \<and> best_so_far_y (update S1 x y 1) = y" by blast
  show ?thesis
    unfolding Let_def E_def[symmetric] S_def[symmetric] x_def[symmetric] y_def[symmetric]
      S1_def[symmetric]
    using c e imp a vals by blast
qed

text \<open>
  C2 as stated fails in the generation that terminates the run: with a budget of two
  evaluations the first offspring has fitness 16.82, below the incumbent's 18, and the
  loop is left with the incumbent unchanged.
\<close>

theorem incumbent_update_counterexample:
  "generation (tape_env 2 [3, 3]) (tape_start 2 False 100 [- 1, - 1, 4, 4]) =
     Break (snd (snd (sample_offspring (tape_env 2 [3, 3]) (tape_start 2 False 100 [- 1, - 1, 4, 4]))))
   \<and> fst (sample_offspring (tape_env 2 [3, 3]) (tape_start 2 False 100 [- 1, - 1, 4, 4]))
       = [29 / 10, 29 / 10]
   \<and> fst (snd (sample_offspring (tape_env 2 [3, 3]) (tape_start 2 False 100 [- 1, - 1, 4, 4])))
       = 841 / 50
   \<and> mean (tape_start 2 False 100 [- 1, - 1, 4, 4]) = [3, 3]
   \<and> best_so_far_y (tape_start 2 False 100 [- 1, - 1, 4, 4]) = 18
   \<and> mean (snd (snd (sample_offspring (tape_env 2 [3, 3]) (tape_start 2 False 100 [- 1, - 1, 4, 4]))))
       = [3, 3]
   \<and> best_so_far_y (snd (snd (sample_offspring (tape_env 2 [3, 3])
         (tape_start 2 False 100 [- 1, - 1, 4, 4])))) = 18"
  by (simp add: run_defs)

text \<open>
  C3 (as amended). At the head of the loop, after any number of generations of a run
  that started with all counters at zero, the evaluation count is one plus the number of
  completed generations plus the number of restarts: one evaluation at initialisation,
  one per generation, and one more for the fresh starting point of every restart. When
  the restart gate is off it is one plus the number of completed generations.
\<close>

theorem evaluation_count:
  assumes "n_function_evaluations s = 0" and "n_generations s = 0" and "n_restart s = 0"
      and "generations env k (optimize_start env s) = Some st"
  shows "n_generations (self st) = k
       \<and> n_function_evaluations (self st) = 1 + n_generations (self st) + n_restart (self st)
       \<and> (\<not> is_restart s \<longrightarrow>
            n_restart (self st) = 0
            \<and> n_function_evaluations (self st) = 1 + n_generations (self st))"
proof -
  from generations_const[OF assms(4)] assms(2)
  have gen: "n_generations (self st) = k" by (simp add: optimize_start_effect)
  from generations_counters[OF assms(4)] assms(1,3)
  have "n_function_evaluations (self st) = 1 + k + n_restart (self st)"
    and "\<not> is_restart s \<longrightarrow> n_restart (self st) = 0"
    by (simp_all add: optimize_start_effect)
  with gen show ?thesis by simp
qed

theorem evaluation_count_witness:
  "let E = tape_env 200 [3, 3];
       s = tape_res True 1 [- 1, - 1, 4, 4];
       t = tape_res False 1 [- 1, - 1, 4, 4]
   in n_function_evaluations s = 0 \<and> n_generations s = 0 \<and> n_restart s = 0
      \<and> (case generations E 1 (optimize_start E s) of
            None \<Rightarrow> False
          | Some S \<Rightarrow> n_generations (self S) = 1 \<and> n_restart (self S) = 1
                      \<and> n_function_evaluations (self S) = 3)
      \<and> n_function_evaluations t = 0 \<and> n_generations t = 0 \<and> n_restart t = 0
      \<and> \<not> is_restart t
      \<and> (case generations E 1 (optimize_start E t) of
            None \<Rightarrow> False
          | Some S \<Rightarrow> n_generations (self S) = 1 \<and> n_restart (self S) = 0
                      \<and> n_function_evaluations (self S) = 2)"
proof -
  define E where "E = tape_env 200 [3, 3]"
  define s where "s = tape_res True 1 [- 1, - 1, 4, 4]"
  define t where "t = tape_res False 1 [- 1, - 1, 4, 4]"
  define S where "S =
     \<lparr>self = \<lparr>ndim_problem = 2, eta_sigma = Some 1, sigma = 1 / 10, sigma_bak = 1 / 10,
        sigma_threshold = 0, stagnation = 1, fitness_diff = 1 / 1000, fitness_list = [32],
        n_restart = 1, n_generations = 1, n_function_evaluations = 3,
        self_best_so_far_y = 841 / 50, is_restart = True, record_fitness = True,
        rng = ([] :: real list)\<rparr>,
      mean = [4, 4], best_so_far_y = 32, fitness = [18, 841 / 50, 32]\<rparr>"
  define T where "T =
     \<lparr>self = \<lparr>ndim_problem = 2, eta_sigma = Some 1, sigma = exp (4 / 5) / 10,
        sigma_bak = 1 / 10, sigma_threshold = 0, stagnation = 1, fitness_diff = 1 / 1000,
        fitness_list = [], n_restart = 0, n_generations = 1, n_function_evaluations = 2,
        self_best_so_far_y = 841 / 50, is_restart = False, record_fitness = True,
        rng = [4, 4 :: real]\<rparr>,
      mean = [29 / 10, 29 / 10], best_so_far_y = 841 / 50, fitness = [18, 841 / 50]\<rparr>"
  have zs: "n_function_evaluations s = 0" "n_generations s = 0" "n_restart s = 0"
    by (simp_all add: s_def tape_res_def)
  have zt: "n_function_evaluations t = 0" "n_generations t = 0" "n_restart t = 0"
    "\<not> is_restart t"
    by (simp_all add: t_def tape_res_def)
  have "generation E (optimize_start E s) = Next S"
    by (simp add: S_def s_def E_def run_defs)
  then have ks: "generations E 1 (optimize_start E s) = Some S" by simp
  have "generation E (optimize_start E t) = Next T"
    by (simp add: T_def t_def E_def run_defs)
  then have kt: "generations E 1 (optimize_start E t) = Some T" by simp
  have rs: "n_restart (self S) = 1" by (simp add: S_def)
  from evaluation_count[OF zs ks] rs
  have cs: "n_generations (self S) = 1 \<and> n_restart (self S) = 1
            \<and> n_function_evaluations (self S) = 3" by simp
  from evaluation_count[OF zt(1,2,3) kt] zt(4)
  have ct: "n_generations (self T) = 1 \<and> n_restart (self T) = 0
            \<and> n_function_evaluations (self T) = 2" by simp
  from zs zt ks kt cs ct show ?thesis
    unfolding Let_def E_def[symmetric] s_def[symmetric] t_def[symmetric] by simp
qed

text \<open>
  C3 as stated fails as soon as a restart fires: after the first generation of this run,
  in which the restart evaluates its fresh starting point, three evaluations have been
  made and one generation is complete.
\<close>

theorem evaluation_count_counterexample:
  "generations (tape_env 200 [3, 3]) 1 (tape_start 200 True 1 [- 1, - 1, 4, 4]) =
     Some \<lparr>self = \<lparr>ndim_problem = 2, eta_sigma = Some 1, sigma = 1 / 10, sigma_bak = 1 / 10,
              sigma_threshold = 0, stagnation = 1, fitness_diff = 1 / 1000,
              fitness_list = [32], n_restart = 1, n_generations = 1,
              n_function_evaluations = 3, self_best_so_far_y = 841 / 50, is_restart = True,
              record_fitness = True, rng = []\<rparr>,
            mean = [4, 4], best_so_far_y = 32, fitness = [18, 841 / 50, 32]\<rparr>
   \<and> n_function_evaluations (self (tape_start 200 True 1 [- 1, - 1, 4, 4])) = 1
   \<and> n_generations (self (tape_start 200 True 1 [- 1, - 1, 4, 4])) = 0"
proof -
  have "generation (tape_env 200 [3, 3]) (tape_start 200 True 1 [- 1, - 1, 4, 4]) =
     Next \<lparr>self = \<lparr>ndim_problem = 2, eta_sigma = Some 1, sigma = 1 / 10, sigma_bak = 1 / 10,
              sigma_threshold = 0, stagnation = 1, fitness_diff = 1 / 1000,
              fitness_list = [32], n_restart = 1, n_generations = 1,
              n_function_evaluations = 3, self_best_so_far_y = 841 / 50, is_restart = True,
              record_fitness = True, rng = []\<rparr>,
            mean = [4, 4], best_so_far_y = 32, fitness = [18, 841 / 50, 32]\<rparr>"
    by (simp add: run_defs)
  then have "generations (tape_env 200 [3, 3]) 1 (tape_start 200 True 1 [- 1, - 1, 4, 4]) =
     Some \<lparr>self = \<lparr>ndim_problem = 2, eta_sigma = Some 1, sigma = 1 / 10, sigma_bak = 1 / 10,
              sigma_threshold = 0, stagnation = 1, fitness_diff = 1 / 1000,
              fitness_list = [32], n_restart = 1, n_generations = 1,
              n_function_evaluations = 3, self_best_so_far_y = 841 / 50, is_restart = True,
              record_fitness = True, rng = []\<rparr>,
            mean = [4, 4], best_so_far_y = 32, fitness = [18, 841 / 50, 32]\<rparr>"
    by simp
  moreover have "n_function_evaluations (self (tape_start 200 True 1 [- 1, - 1, 4, 4])) = 1"
    "n_generations (self (tape_start 200 True 1 [- 1, - 1, 4, 4])) = 0"
    by (simp_all add: run_defs)
  ultimately show ?thesis by (intro conjI)
qed

text \<open>
  C4 (as amended). Over any stretch of a run in which no restart fires (the restart
  counter is the same at both ends), and so over the whole run when the restart gate is
  off, \<open>best_so_far_y\<close> at the later loop head is at most \<open>best_so_far_y\<close> at the earlier
  one, and a terminating generation leaves it as it is. The object's own
  \<open>self.best_so_far_y\<close> never increases, restarts included.
\<close>

theorem incumbent_monotone:
  assumes "generations env k st = Some st2"
  shows "(n_restart (self st2) = n_restart (self st) \<longrightarrow>
            best_so_far_y st2 \<le> best_so_far_y st)
       \<and> (\<not> is_restart (self st) \<longrightarrow> best_so_far_y st2 \<le> best_so_far_y st)
       \<and> (\<forall>st3. generation env st2 = Break st3 \<longrightarrow> best_so_far_y st3 = best_so_far_y st2)
       \<and> self_best_so_far_y (self st2) \<le> self_best_so_far_y (self st)"
proof -
  have a: "best_so_far_y st2 \<le> best_so_far_y st"
    if "n_restart (self st2) = n_restart (self st)"
    using generations_best[OF assms that] .
  have b: "best_so_far_y st2 \<le> best_so_far_y st" if "\<not> is_restart (self st)"
    using generations_counters[OF assms] that a by simp
  have c: "best_so_far_y st3 = best_so_far_y st2" if "generation env st2 = Break st3" for st3
  proof -
    obtain x y st1 where h: "sample_offspring env st2 = (x, y, st1)"
      by (cases "sample_offspring env st2") auto
    from generation_Break(2)[OF that h] sample_offspring_effect(2)[OF h] show ?thesis by simp
  qed
  from a b c generations_counters[OF assms] show ?thesis by blast
qed

theorem incumbent_monotone_witness:
  "let E = tape_env 200 [3, 3]; S = tape_start 200 True 100 [- 1, - 1, 4, 4]
   in case generations E 1 S of
        None \<Rightarrow> False
      | Some S2 \<Rightarrow>
          n_restart (self S2) = n_restart (self S)
          \<and> best_so_far_y S2 \<le> best_so_far_y S
          \<and> best_so_far_y S2 = 841 / 50 \<and> best_so_far_y S = 18"
proof -
  define E where "E = tape_env 200 [3, 3]"
  define S where "S = tape_start 200 True 100 [- 1, - 1, 4, 4]"
  define S2 where "S2 =
     \<lparr>self = \<lparr>ndim_problem = 2, eta_sigma = Some 1, sigma = exp (4 / 5) / 10,
        sigma_bak = 1 / 10, sigma_threshold = 0, stagnation = 100, fitness_diff = 1 / 1000,
        fitness_list = [841 / 50], n_restart = 0, n_generations = 1,
        n_function_evaluations = 2, self_best_so_far_y = 841 / 50, is_restart = True,
        record_fitness = True, rng = [4, 4 :: real]\<rparr>,
      mean = [29 / 10, 29 / 10], best_so_far_y = 841 / 50, fitness = [18, 841 / 50]\<rparr>"
  have "generation E S = Next S2"
    by (simp add: S2_def S_def E_def run_defs)
  then have k: "generations E 1 S = Some S2" by simp
  have n: "n_restart (self S2) = n_restart (self S)"
    by (simp add: S2_def S_def E_def run_defs)
  have v: "best_so_far_y S2 = 841 / 50" "best_so_far_y S = 18"
    by (simp_all add: S2_def S_def E_def run_defs)
  from incumbent_monotone[OF k] n
  have "best_so_far_y S2 \<le> best_so_far_y S" by blast
  with k n v show ?thesis
    unfolding Let_def E_def[symmetric] S_def[symmetric] by simp
qed

text \<open>
  C4 as stated fails across a restart: the first generation of this run restarts at the
  point (5, 5), and \<open>best_so_far_y\<close> goes from 18 to 50.
\<close>

theorem incumbent_monotone_counterexample:
  "best_so_far_y (tape_start 200 True 1 [1, 1, 5, 5]) = 18
   \<and> generation (tape_env 200 [3, 3]) (tape_start 200 True 1 [1, 1, 5, 5]) =
     Next \<lparr>self = \<lparr>ndim_problem = 2, eta_sigma = Some 1, sigma = 1 / 10, sigma_bak = 1 / 10,
              sigma_threshold = 0, stagnation = 1, fitness_diff = 1 / 1000,
              fitness_list = [50], n_restart = 1, n_generations = 1,
              n_function_evaluations = 3, self_best_so_far_y = 18, is_restart = True,
              record_fitness = True, rng = []\<rparr>,
            mean = [5, 5], best_so_far_y = 50, fitness = [18, 961 / 50, 50]\<rparr>"
  by (simp add: run_defs)




text \<open>
  C6. When a restart fires in a generation, anywhere in a run: the restart counter goes
  up by one; sigma is set to \<open>_sigma_bak\<close> as the constructed object had it (the backup
  is never written during the run, so no intermediate sigma can come back);
  \<open>initialize\<close> is run with the restart flag set, giving the new mean from
  \<open>_initialize_mean(True)\<close>, its fitness and \<open>best_so_far_y\<close> equal to that fitness; the
  fitness is appended to the trace; and the rolling history is the new \<open>best_so_far_y\<close>
  alone.
\<close>

theorem restart_effects:
  assumes "generations env k (optimize_start env s) = Some st"
      and "sample_offspring env st = (x, y, st1)"
      and "eta_sigma (self st) = Some eta"
      and "generation env st = Next st2"
      and "n_restart (self st2) \<noteq> n_restart (self st)"
  shows "n_restart (self st2) = n_restart (self st) + 1
       \<and> sigma (self st2) = sigma_bak s
       \<and> fst (initialize env True
              ((append_best (self (update st1 x y eta)))
                 \<lparr>n_restart := n_restart (self st) + 1, sigma := sigma_bak s\<rparr>))
           = (mean st2, best_so_far_y st2, best_so_far_y st2)
       \<and> mean st2 = fst (initialize_mean env True (rng (self st1)))
       \<and> best_so_far_y st2 = fitness_function env (mean st2)
       \<and> fitness st2 = fitness st1 @ [best_so_far_y st2]
       \<and> fitness_list (self st2) = [best_so_far_y st2]"
proof -
  note eff = sample_offspring_effect[OF assms(2)]
  define u where "u = update st1 x y eta"
  have bak: "sigma_bak (self st) = sigma_bak s"
    using generations_const[OF assms(1)] by (simp add: optimize_start_effect)
  from generation_Next(2)[OF assms(4,2)] assms(3)
  have rc: "restart_check env u y = Inr st2" by (simp add: u_def)
  have nu: "n_restart (self u) = n_restart (self st)" "sigma_bak (self u) = sigma_bak s"
    "fitness u = fitness st1" "rng (self u) = rng (self st1)"
    by (simp_all add: u_def update_params update_incumbent eff bak)
  from rc show ?thesis
  proof (cases rule: restart_check_cases)
    case off
    with nu assms(5) show ?thesis by simp
  next
    case quiet
    with nu assms(5) show ?thesis by (simp add: append_best_def)
  next
    case (fired r2 m y1 b s4)
    note ini = initialize_effect[OF fired(4)]
    have m: "m = fst (initialize_mean env True (rng (self st1)))"
      using fired(4) nu(4)
      by (simp add: initialize_def append_best_def Let_def split: prod.splits)
    from fired(4) fired(5) ini nu m show ?thesis
      by (simp add: u_def[symmetric] append_best_def)
  qed
qed


theorem restart_effects_witness:
  "let E = tape_env 200 [3, 3]; s = tape_res True 1 [- 1, - 1, 4, 4, 1, 1, 5, 5]
   in case generations E 1 (optimize_start E s) of
        None \<Rightarrow> False
      | Some S \<Rightarrow>
          eta_sigma (self S) = Some 1 \<and> n_restart (self S) = 1
          \<and> (case generation E S of
                Next S2 \<Rightarrow>
                  n_restart (self S2) = 2 \<and> sigma (self S2) = sigma_bak s
                  \<and> sigma (self S2) = 1 / 10
                  \<and> mean S2 = [5, 5] \<and> best_so_far_y S2 = 50
                  \<and> fitness S2 = [18, 841 / 50, 32, 1681 / 50, 50]
                  \<and> fitness_list (self S2) = [50]
              | _ \<Rightarrow> False)"
proof -
  define E where "E = tape_env 200 [3, 3]"
  define s where "s = tape_res True 1 [- 1, - 1, 4, 4, 1, 1, 5, 5]"
  define S where "S =
     \<lparr>self = \<lparr>ndim_problem = 2, eta_sigma = Some 1, sigma = 1 / 10, sigma_bak = 1 / 10,
        sigma_threshold = 0, stagnation = 1, fitness_diff = 1 / 1000, fitness_list = [32],
        n_restart = 1, n_generations = 1, n_function_evaluations = 3,
        self_best_so_far_y = 841 / 50, is_restart = True, record_fitness = True,
        rng = [1, 1, 5, 5 :: real]\<rparr>,
      mean = [4, 4], best_so_far_y = 32, fitness = [18, 841 / 50, 32]\<rparr>"
  define S2 where "S2 =
     \<lparr>self = \<lparr>ndim_problem = 2, eta_sigma = Some 1, sigma = 1 / 10, sigma_bak = 1 / 10,
        sigma_threshold = 0, stagnation = 1, fitness_diff = 1 / 1000, fitness_list = [50],
        n_restart = 2, n_generations = 2, n_function_evaluations = 5,
        self_best_so_far_y = 841 / 50, is_restart = True, record_fitness = True,
        rng = ([] :: real list)\<rparr>,
      mean = [5, 5], best_so_far_y = 50, fitness = [18, 841 / 50, 32, 1681 / 50, 50]\<rparr>"
  define x where "x = fst (sample_offspring E S)"
  define y where "y = fst (snd (sample_offspring E S))"
  define S1 where "S1 = snd (snd (sample_offspring E S))"
  have g1: "generation E (optimize_start E s) = Next S"
    by (simp add: S_def s_def E_def run_defs)
  then have k: "generations E 1 (optimize_start E s) = Some S"
    by simp
  have h: "sample_offspring E S = (x, y, S1)"
    by (simp add: x_def y_def S1_def)
  have e: "eta_sigma (self S) = Some 1"
    by (simp add: S_def)
  have g: "generation E S = Next S2"
    by (simp add: S2_def S_def E_def run_defs)
  have n: "n_restart (self S2) \<noteq> n_restart (self S)" "n_restart (self S) = 1"
    "sigma_bak s = 1 / 10"
    by (simp_all add: S2_def S_def s_def tape_res_def)
  have v: "mean S2 = [5, 5]" "best_so_far_y S2 = 50"
    by (simp_all add: S2_def)
  from restart_effects[OF k h e g n(1)] n v
  have "n_restart (self S2) = 2 \<and> sigma (self S2) = sigma_bak s \<and> sigma (self S2) = 1 / 10
        \<and> fitness_list (self S2) = [50]"
    by simp
  moreover have "fitness S2 = [18, 841 / 50, 32, 1681 / 50, 50]" by (simp add: S2_def)
  ultimately show ?thesis
    unfolding Let_def E_def[symmetric] s_def[symmetric] using k g e n v by simp
qed

text \<open>
  C7 (as amended). The restart check of a generation is behind the gate
  \<open>self.is_restart\<close>. With the gate set, the check appends the object's
  \<open>self.best_so_far_y\<close> to the rolling history whether or not a restart fires; only a
  firing restart then replaces the history by the new \<open>best_so_far_y\<close> alone. With the
  gate off the history is left as it was. The appended value is the loop's current
  \<open>best_so_far_y\<close> whenever the two agreed when the generation began.
\<close>

theorem history_append:
  assumes "sample_offspring env st = (x, y, st1)"
      and "eta_sigma (self st) = Some eta"
      and "generation env st = Next st2"
  shows "fitness_list (self st2) =
           (if is_restart (self st)
            then (if n_restart (self st2) = n_restart (self st)
                  then fitness_list (self st) @ [self_best_so_far_y (self st1)]
                  else [best_so_far_y st2])
            else fitness_list (self st))
       \<and> (self_best_so_far_y (self st) = best_so_far_y st \<longrightarrow>
            self_best_so_far_y (self st1) = best_so_far_y (update st1 x y eta))"
proof -
  note eff = sample_offspring_effect[OF assms(1)]
  define u where "u = update st1 x y eta"
  from generation_Next(2)[OF assms(3,1)] assms(2)
  have rc: "restart_check env u y = Inr st2" by (simp add: u_def)
  have nu: "n_restart (self u) = n_restart (self st)" "is_restart (self u) = is_restart (self st)"
    "fitness_list (self u) = fitness_list (self st)"
    "self_best_so_far_y (self u) = self_best_so_far_y (self st1)"
    by (simp_all add: u_def update_params eff)
  have hist: "fitness_list (self st2) =
           (if is_restart (self st)
            then (if n_restart (self st2) = n_restart (self st)
                  then fitness_list (self st) @ [self_best_so_far_y (self st1)]
                  else [best_so_far_y st2])
            else fitness_list (self st))"
    using rc
  proof (cases rule: restart_check_cases)
    case off
    with nu show ?thesis by simp
  next
    case quiet
    with nu show ?thesis by (simp add: append_best_def)
  next
    case (fired r2 m y1 b s4)
    from initialize_effect(5)[OF fired(4)] fired(5)
    have "n_restart (self st2) = n_restart (self u) + 1" by simp
    with nu fired(1,5) show ?thesis by simp
  qed
  have agree: "self_best_so_far_y (self st1) = best_so_far_y (update st1 x y eta)"
    if "self_best_so_far_y (self st) = best_so_far_y st"
    using that by (simp add: update_incumbent eff)
  from hist agree show ?thesis by simp
qed


theorem history_append_witness:
  "let E = tape_env 200 [3, 3]; S = tape_start 200 True 100 [- 1, - 1, 4, 4]
   in eta_sigma (self S) = Some 1 \<and> is_restart (self S) \<and> fitness_list (self S) = []
      \<and> self_best_so_far_y (self S) = best_so_far_y S
      \<and> (case generation E S of
            Next S2 \<Rightarrow>
              n_restart (self S2) = n_restart (self S)
              \<and> fitness_list (self S2) = [841 / 50] \<and> best_so_far_y S2 = 841 / 50
          | _ \<Rightarrow> False)"
proof -
  define E where "E = tape_env 200 [3, 3]"
  define S where "S = tape_start 200 True 100 [- 1, - 1, 4, 4]"
  define x where "x = fst (sample_offspring E S)"
  define y where "y = fst (snd (sample_offspring E S))"
  define S1 where "S1 = snd (snd (sample_offspring E S))"
  define S2 where "S2 =
     \<lparr>self = \<lparr>ndim_problem = 2, eta_sigma = Some 1, sigma = exp (4 / 5) / 10,
        sigma_bak = 1 / 10, sigma_threshold = 0, stagnation = 100, fitness_diff = 1 / 1000,
        fitness_list = [841 / 50], n_restart = 0, n_generations = 1,
        n_function_evaluations = 2, self_best_so_far_y = 841 / 50, is_restart = True,
        record_fitness = True, rng = [4, 4 :: real]\<rparr>,
      mean = [29 / 10, 29 / 10], best_so_far_y = 841 / 50, fitness = [18, 841 / 50]\<rparr>"
  have h: "sample_offspring E S = (x, y, S1)"
    by (simp add: x_def y_def S1_def)
  have e: "eta_sigma (self S) = Some 1"
    by (simp add: S_def E_def run_defs)
  have g: "generation E S = Next S2"
    by (simp add: S2_def S_def E_def run_defs)
  have v: "is_restart (self S)" "fitness_list (self S) = []"
    "self_best_so_far_y (self S) = best_so_far_y S" "n_restart (self S) = 0"
    "self_best_so_far_y (self S1) = 841 / 50"
    by (simp_all add: S1_def S_def E_def run_defs)
  have w: "n_restart (self S2) = 0" "best_so_far_y S2 = 841 / 50"
    by (simp_all add: S2_def)
  from history_append[OF h e g] v w
  have "fitness_list (self S2) = [841 / 50]" by simp
  with e g v w show ?thesis
    unfolding Let_def E_def[symmetric] S_def[symmetric] by simp
qed

text \<open>
  C7 as stated fails in two ways. With the gate off (first conjunct) a generation ends
  without a word in the history. With the gate on (second and third conjunct), in a run
  whose first generation restarts at a point worse than the best seen, the second
  generation appends 18, the best fitness of the whole run, while the loop's
  \<open>best_so_far_y\<close> is 30.42.
\<close>

theorem history_append_counterexample:
  "generation (tape_env 200 [3, 3]) (tape_start 200 False 100 [- 1, - 1, 4, 4]) =
     Next \<lparr>self = \<lparr>ndim_problem = 2, eta_sigma = Some 1, sigma = exp (4 / 5) / 10,
              sigma_bak = 1 / 10, sigma_threshold = 0, stagnation = 100,
              fitness_diff = 1 / 1000, fitness_list = [], n_restart = 0, n_generations = 1,
              n_function_evaluations = 2, self_best_so_far_y = 841 / 50, is_restart = False,
              record_fitness = True, rng = [4, 4]\<rparr>,
            mean = [29 / 10, 29 / 10], best_so_far_y = 841 / 50, fitness = [18, 841 / 50]\<rparr>
   \<and> generation (tape_env 200 [3, 3])
        (optimize_start (tape_env 200 [3, 3])
           ((tape_res True 100 [1, 1, 4, 4, - 1, - 1])\<lparr>sigma_threshold := 1 / 10\<rparr>)) =
     Next \<lparr>self = \<lparr>ndim_problem = 2, eta_sigma = Some 1, sigma = 1 / 10, sigma_bak = 1 / 10,
              sigma_threshold = 1 / 10, stagnation = 100, fitness_diff = 1 / 1000,
              fitness_list = [32], n_restart = 1, n_generations = 1,
              n_function_evaluations = 3, self_best_so_far_y = 18, is_restart = True,
              record_fitness = True, rng = [- 1, - 1]\<rparr>,
            mean = [4, 4], best_so_far_y = 32, fitness = [18, 961 / 50, 32]\<rparr>
   \<and> generation (tape_env 200 [3, 3])
        \<lparr>self = \<lparr>ndim_problem = 2, eta_sigma = Some 1, sigma = 1 / 10, sigma_bak = 1 / 10,
              sigma_threshold = 1 / 10, stagnation = 100, fitness_diff = 1 / 1000,
              fitness_list = [32], n_restart = 1, n_generations = 1,
              n_function_evaluations = 3, self_best_so_far_y = 18, is_restart = True,
              record_fitness = True, rng = [- 1, - 1]\<rparr>,
            mean = [4, 4], best_so_far_y = 32, fitness = [18, 961 / 50, 32]\<rparr> =
     Next \<lparr>self = \<lparr>ndim_problem = 2, eta_sigma = Some 1, sigma = exp (4 / 5) / 10,
              sigma_bak = 1 / 10, sigma_threshold = 1 / 10, stagnation = 100,
              fitness_diff = 1 / 1000, fitness_list = [32, 18], n_restart = 1,
              n_generations = 2, n_function_evaluations = 4, self_best_so_far_y = 18,
              is_restart = True, record_fitness = True, rng = []\<rparr>,
            mean = [39 / 10, 39 / 10], best_so_far_y = 1521 / 50,
            fitness = [18, 961 / 50, 32, 1521 / 50]\<rparr>"
proof -
  have a: "generation (tape_env 200 [3, 3]) (tape_start 200 False 100 [- 1, - 1, 4, 4]) =
     Next \<lparr>self = \<lparr>ndim_problem = 2, eta_sigma = Some 1, sigma = exp (4 / 5) / 10,
              sigma_bak = 1 / 10, sigma_threshold = 0, stagnation = 100,
              fitness_diff = 1 / 1000, fitness_list = [], n_restart = 0, n_generations = 1,
              n_function_evaluations = 2, self_best_so_far_y = 841 / 50, is_restart = False,
              record_fitness = True, rng = [4, 4]\<rparr>,
            mean = [29 / 10, 29 / 10], best_so_far_y = 841 / 50, fitness = [18, 841 / 50]\<rparr>"
    by (simp add: run_defs)
  have b: "generation (tape_env 200 [3, 3])
        (optimize_start (tape_env 200 [3, 3])
           ((tape_res True 100 [1, 1, 4, 4, - 1, - 1])\<lparr>sigma_threshold := 1 / 10\<rparr>)) =
     Next \<lparr>self = \<lparr>ndim_problem = 2, eta_sigma = Some 1, sigma = 1 / 10, sigma_bak = 1 / 10,
              sigma_threshold = 1 / 10, stagnation = 100, fitness_diff = 1 / 1000,
              fitness_list = [32], n_restart = 1, n_generations = 1,
              n_function_evaluations = 3, self_best_so_far_y = 18, is_restart = True,
              record_fitness = True, rng = [- 1, - 1]\<rparr>,
            mean = [4, 4], best_so_far_y = 32, fitness = [18, 961 / 50, 32]\<rparr>"
    by (simp add: run_defs)
  have c: "generation (tape_env 200 [3, 3])
        \<lparr>self = \<lparr>ndim_problem = 2, eta_sigma = Some 1, sigma = 1 / 10, sigma_bak = 1 / 10,
              sigma_threshold = 1 / 10, stagnation = 100, fitness_diff = 1 / 1000,
              fitness_list = [32], n_restart = 1, n_generations = 1,
              n_function_evaluations = 3, self_best_so_far_y = 18, is_restart = True,
              record_fitness = True, rng = [- 1, - 1]\<rparr>,
            mean = [4, 4], best_so_far_y = 32, fitness = [18, 961 / 50, 32]\<rparr> =
     Next \<lparr>self = \<lparr>ndim_problem = 2, eta_sigma = Some 1, sigma = exp (4 / 5) / 10,
              sigma_bak = 1 / 10, sigma_threshold = 1 / 10, stagnation = 100,
              fitness_diff = 1 / 1000, fitness_list = [32, 18], n_restart = 1,
              n_generations = 2, n_function_evaluations = 4, self_best_so_far_y = 18,
              is_restart = True, record_fitness = True, rng = []\<rparr>,
            mean = [39 / 10, 39 / 10], best_so_far_y = 1521 / 50,
            fitness = [18, 961 / 50, 32, 1521 / 50]\<rparr>"
    by (simp add: run_defs)
  from a b c show ?thesis by (intro conjI)
qed

text \<open>
  C8. The termination check of a generation reads the state right after the offspring was
  sampled, evaluated and recorded, before sigma and the incumbent are touched: the
  generation terminates the run exactly when the check holds there. The terminating
  generation leaves the loop with the offspring's fitness appended to the trace when
  \<open>record_fitness\<close> is set, and with sigma, \<open>mean\<close> and \<open>best_so_far_y\<close> (and the generation
  and restart counters and the rolling history) unchanged.
\<close>

theorem termination_before_update:
  "(\<exists>st1. generation env st = Break st1) =
      check_terminations env (self (snd (snd (sample_offspring env st))))
   \<and> (generation env st = Break st1 \<longrightarrow>
        st1 = snd (snd (sample_offspring env st))
        \<and> fitness st1 = (if record_fitness (self st)
                          then fitness st @ [fst (snd (sample_offspring env st))]
                          else fitness st)
        \<and> sigma (self st1) = sigma (self st)
        \<and> mean st1 = mean st
        \<and> best_so_far_y st1 = best_so_far_y st
        \<and> n_generations (self st1) = n_generations (self st)
        \<and> n_restart (self st1) = n_restart (self st)
        \<and> fitness_list (self st1) = fitness_list (self st))"
proof -
  obtain x y s1 where h: "sample_offspring env st = (x, y, s1)"
    by (cases "sample_offspring env st") auto
  note eff = sample_offspring_effect[OF h]
  have a: "(\<exists>st1. generation env st = Break st1) = check_terminations env (self s1)"
    using h by (auto simp: generation_def split: option.splits sum.splits)
  have b: "st1 = s1" if "generation env st = Break st1"
    using generation_Break(2)[OF that h] .
  from a b h eff(1,2,3,4,11,12,10) show ?thesis by auto
qed

theorem termination_before_update_witness:
  "generation (tape_env 2 [3, 3]) (tape_start 2 True 1 [- 1, - 1, 4, 4]) =
     Break (snd (snd (sample_offspring (tape_env 2 [3, 3]) (tape_start 2 True 1 [- 1, - 1, 4, 4]))))
   \<and> fitness (snd (snd (sample_offspring (tape_env 2 [3, 3])
         (tape_start 2 True 1 [- 1, - 1, 4, 4])))) = [18, 841 / 50]
   \<and> sigma (self (snd (snd (sample_offspring (tape_env 2 [3, 3])
         (tape_start 2 True 1 [- 1, - 1, 4, 4]))))) = 1 / 10
   \<and> mean (snd (snd (sample_offspring (tape_env 2 [3, 3])
         (tape_start 2 True 1 [- 1, - 1, 4, 4])))) = [3, 3]
   \<and> best_so_far_y (snd (snd (sample_offspring (tape_env 2 [3, 3])
         (tape_start 2 True 1 [- 1, - 1, 4, 4])))) = 18"
proof -
  define E where "E = tape_env 2 [3, 3]"
  define S where "S = tape_start 2 True 1 [- 1, - 1, 4, 4]"
  define S1 where "S1 = snd (snd (sample_offspring E S))"
  have g: "generation E S = Break S1"
    by (simp add: S1_def S_def E_def run_defs)
  have v: "fitness S = [18]" "record_fitness (self S)" "sigma (self S) = 1 / 10"
    "mean S = [3, 3]" "best_so_far_y S = 18" "fst (snd (sample_offspring E S)) = 841 / 50"
    by (simp_all add: S_def E_def run_defs)
  from termination_before_update[of E S S1] g
  have "fitness S1 = (if record_fitness (self S)
                          then fitness S @ [fst (snd (sample_offspring E S))]
                          else fitness S)
        \<and> sigma (self S1) = sigma (self S) \<and> mean S1 = mean S
        \<and> best_so_far_y S1 = best_so_far_y S"
    by blast
  with v g show ?thesis
    unfolding E_def[symmetric] S_def[symmetric] S1_def[symmetric] by simp
qed

text \<open>
  C9. The constructor fills a missing learning rate with \<open>1 / sqrt (n + 1)\<close>, where \<open>n\<close>
  is the dimension; it fails with an assertion error exactly when the learning rate it
  was given is not positive; and an object that it returns has a positive learning rate
  and the evaluation count it had before (the constructor evaluates nothing).
\<close>

theorem eta_sigma_default_and_validation:
  "(eta_sigma s = None \<longrightarrow>
      RES_init s = Inr (s\<lparr>eta_sigma := Some (1 / sqrt (real (ndim_problem s) + 1))\<rparr>))
   \<and> (\<forall>e. eta_sigma s = Some e \<longrightarrow>
         RES_init s = (if e > 0 then Inr s else Inl AssertionError))
   \<and> (\<forall>s1. RES_init s = Inr s1 \<longrightarrow>
         (\<exists>e. eta_sigma s1 = Some e \<and> 0 < e)
         \<and> n_function_evaluations s1 = n_function_evaluations s)"
  by (auto simp: RES_init_def Let_def split: option.splits if_splits)

theorem eta_sigma_default_and_validation_witness:
  "RES_init ((tape_res False 100 [])\<lparr>ndim_problem := 3, eta_sigma := None\<rparr>) =
     Inr ((tape_res False 100 [])\<lparr>ndim_problem := 3, eta_sigma := Some (1 / 2)\<rparr>)
   \<and> RES_init ((tape_res False 100 [])\<lparr>eta_sigma := Some 0\<rparr>) = Inl AssertionError
   \<and> RES_init ((tape_res False 100 [])\<lparr>eta_sigma := Some (- 1)\<rparr>) = Inl AssertionError
   \<and> RES_init (tape_res False 100 []) = Inr (tape_res False 100 [])"
proof -
  have n: "eta_sigma ((tape_res False 100 [])\<lparr>ndim_problem := 3, eta_sigma := None\<rparr>) = None"
    by simp
  have z: "eta_sigma ((tape_res False 100 [])\<lparr>eta_sigma := Some 0\<rparr>) = Some 0"
    by simp
  have m: "eta_sigma ((tape_res False 100 [])\<lparr>eta_sigma := Some (- 1)\<rparr>) = Some (- 1)"
    by simp
  have p: "eta_sigma (tape_res False 100 [] :: (real list) res) = Some 1"
    by (simp add: tape_res_def)
  have sq: "sqrt (real (3::nat) + 1) = 2"
    by simp
  from eta_sigma_default_and_validation[of "(tape_res False 100 [])\<lparr>ndim_problem := 3, eta_sigma := None\<rparr>"] n
  have 1: "RES_init ((tape_res False 100 [])\<lparr>ndim_problem := 3, eta_sigma := None\<rparr>) =
     Inr ((tape_res False 100 [])\<lparr>ndim_problem := 3, eta_sigma := Some (1 / 2)\<rparr>)"
    using sq by simp
  from eta_sigma_default_and_validation[of "(tape_res False 100 [])\<lparr>eta_sigma := Some 0\<rparr>"] z
  have 2: "RES_init ((tape_res False 100 [])\<lparr>eta_sigma := Some 0\<rparr>) = Inl AssertionError"
    by simp
  from eta_sigma_default_and_validation[of "(tape_res False 100 [])\<lparr>eta_sigma := Some (- 1)\<rparr>"] m
  have 3: "RES_init ((tape_res False 100 [])\<lparr>eta_sigma := Some (- 1)\<rparr>) = Inl AssertionError"
    by simp
  from eta_sigma_default_and_validation[of "tape_res False 100 []"] p
  have 4: "RES_init (tape_res False 100 []) = Inr (tape_res False 100 [])"
    by simp
  from 1 2 3 4 show ?thesis by blast
qed

text \<open>
  C10. A call of \<open>restart_initialize\<close> in which neither detector is true (both read the
  object after the append of line 130) returns its
  \<open>mean\<close>, \<open>y\<close> and \<open>best_so_far_y\<close> arguments and the trace as they were passed, and its
  only change to the object is the value of \<open>self.best_so_far_y\<close> appended to the rolling
  history: sigma, the restart counter and the evaluation count stay as they were.
\<close>

theorem restart_initialize_frame:
  assumes "\<not> is_restart_1 (append_best s)"
      and "is_restart_2 (append_best s) = Inr False"
  shows "restart_initialize env s (m, y, b) trace =
           Inr (s\<lparr>fitness_list := fitness_list s @ [self_best_so_far_y s]\<rparr>, (m, y, b), trace)
       \<and> (\<forall>s1 args1 trace1.
             restart_initialize env s (m, y, b) trace = Inr (s1, args1, trace1) \<longrightarrow>
               args1 = (m, y, b) \<and> trace1 = trace
               \<and> sigma s1 = sigma s \<and> n_restart s1 = n_restart s
               \<and> n_function_evaluations s1 = n_function_evaluations s
               \<and> self_best_so_far_y s1 = self_best_so_far_y s
               \<and> fitness_list s1 = fitness_list s @ [self_best_so_far_y s])"
proof -
  have "restart_initialize env s (m, y, b) trace = Inr (append_best s, (m, y, b), trace)"
    by (rule restart_initialize_quiet[OF assms])
  then show ?thesis by (simp add: append_best_def)
qed

theorem restart_initialize_frame_witness:
  "\<not> is_restart_1 (append_best (tape_res True 100 []))
   \<and> is_restart_2 (append_best (tape_res True 100 [])) = Inr False
   \<and> restart_initialize (tape_env 200 [3, 3]) (tape_res True 100 []) ([3, 3], 20, 18) [18, 20] =
       Inr ((tape_res True 100 [])\<lparr>fitness_list := [1000]\<rparr>, ([3, 3], 20, 18), [18, 20])"
proof -
  have a: "\<not> is_restart_1 (append_best (tape_res True 100 []))"
    by (simp add: run_defs)
  have b: "is_restart_2 (append_best (tape_res True 100 [])) = Inr False"
    by (simp add: run_defs)
  from restart_initialize_frame[OF a b, of "tape_env 200 [3, 3]" "[3, 3]" 20 18 "[18, 20]"]
  have "restart_initialize (tape_env 200 [3, 3]) (tape_res True 100 []) ([3, 3], 20, 18) [18, 20] =
       Inr ((tape_res True 100 [])\<lparr>fitness_list := fitness_list (tape_res True 100 []) @
              [self_best_so_far_y (tape_res True 100 [])]\<rparr>, ([3, 3], 20, 18), [18, 20])"
    by blast
  moreover have "fitness_list (tape_res True 100 []) @ [self_best_so_far_y (tape_res True 100 [])]
      = [1000]" by (simp add: tape_res_def)
  ultimately show ?thesis using a b by simp
qed

end
